theory Spec2Isabelle
  imports Main "HOL-Library.Multiset" "HOL-Library.Sublist"
begin

section \<open>k6provider: the request translation\<close>

text \<open>
  The constants of \<^verbatim>\<open>provider.go\<close>: the name of the binary inside an artifact directory
  and the name of the primary module.
\<close>

definition k6Binary :: string where
  "k6Binary = ''k6''"

definition k6Module :: string where
  "k6Module = ''k6''"

subsection \<open>Go maps and their iteration\<close>

text \<open>
  A Go map is a partial function. A \<^verbatim>\<open>for ... := range m\<close> loop visits every entry once,
  in an order the runtime chooses anew for each loop. The order is therefore an argument of
  every function that ranges over a map: the list of the keys as this loop visits them.
  \<open>range_order m ks\<close> says that \<open>ks\<close> is such an order for \<open>m\<close>.
\<close>

definition range_order :: "('k \<rightharpoonup> 'v) \<Rightarrow> 'k list \<Rightarrow> bool" where
  "range_order m ks \<longleftrightarrow> distinct ks \<and> set ks = dom m"

definition range_entries :: "'k list \<Rightarrow> ('k \<rightharpoonup> 'v) \<Rightarrow> ('k \<times> 'v) list" where
  "range_entries ks m = List.map_filter (\<lambda>k. map_option (Pair k) (m k)) ks"

subsection \<open>Dependencies\<close>

text \<open>
  Modelled from the spec: the type \<^verbatim>\<open>k6deps.Dependencies\<close> and its element type are declared
  in another module. The spec's data model has it as a mapping from dependency name to
  version constraint with unique keys, each constraint an opaque string in canonical form.
  The loop of \<^verbatim>\<open>buildDeps\<close> reads \<^verbatim>\<open>dep.Name\<close> and \<^verbatim>\<open>dep.GetConstraints().String()\<close> of each
  value; \<open>Constraints\<close> holds the string that call returns.
\<close>

record Dependency =
  Name :: string
  Constraints :: string

type_synonym Dependencies = "string \<rightharpoonup> Dependency"

definition GetConstraints_String :: "Dependency \<Rightarrow> string" where
  "GetConstraints_String dep = Constraints dep"

text \<open>
  \<^verbatim>\<open>k6build.Dependency\<close>, the element of the auxiliary list sent to the build service. Its
  fields are \<^verbatim>\<open>Name\<close> and \<^verbatim>\<open>Constraints\<close> in Go; they are prefixed here to keep them apart
  from the fields of \<open>Dependency\<close>.
\<close>

record BuildDependency =
  DepName :: string
  DepConstraints :: string

text \<open>
  \<^verbatim>\<open>buildDeps\<close>: the loop body, on the values in the order the loop visits them, with the
  two variables \<^verbatim>\<open>k6constraint\<close> and \<^verbatim>\<open>bdeps\<close> it updates.
\<close>

fun buildDeps_loop ::
  "Dependency list \<Rightarrow> string \<times> BuildDependency list \<Rightarrow> string \<times> BuildDependency list" where
  "buildDeps_loop [] (k6constraint, bdeps) = (k6constraint, bdeps)"
| "buildDeps_loop (dep # rest) (k6constraint, bdeps) =
     (if Name dep = k6Module
      then buildDeps_loop rest (GetConstraints_String dep, bdeps)
      else buildDeps_loop rest
             (k6constraint,
              bdeps @ [\<lparr>DepName = Name dep, DepConstraints = GetConstraints_String dep\<rparr>]))"

definition buildDeps :: "string list \<Rightarrow> Dependencies \<Rightarrow> string \<times> BuildDependency list" where
  "buildDeps ks deps = buildDeps_loop (map snd (range_entries ks deps)) (''*'', [])"

text \<open>What the claims call an auxiliary entry: the name and the constraint string, copied.\<close>

definition verbatim :: "Dependency \<Rightarrow> BuildDependency" where
  "verbatim dep = \<lparr>DepName = Name dep, DepConstraints = Constraints dep\<rparr>"

definition non_primary :: "Dependency \<Rightarrow> bool" where
  "non_primary dep \<longleftrightarrow> Name dep \<noteq> k6Module"

section \<open>k6provider: errors\<close>

text \<open>
  The package's sentinel errors, created with \<^verbatim>\<open>errors.New\<close>. An error of a class is an
  error that wraps the class's sentinel.
\<close>

datatype sentinel = ErrBinary | ErrBuild | ErrConfig | ErrDependency | ErrDownload

text \<open>
  The errors of the collaborators (operating system, HTTP transport, URL parser, build
  service client). They are made outside this package, so none of them is or wraps one of
  its sentinels; only the cause matters here.
\<close>

datatype cause =
    NotExist | Permission | NotDirectory | IsDirectory | Invalid | IOFailure | Failure string

text \<open>
  An error value: a sentinel, a collaborator's error, or the result of
  \<^verbatim>\<open>fmt.Errorf("%w: %w", a, b)\<close> or \<^verbatim>\<open>fmt.Errorf("%w: %s", a, s)\<close>.
\<close>

datatype error =
    Sentinel sentinel
  | Foreign cause
  | Errorf_ww error error
  | Errorf_ws error string

text \<open>\<^verbatim>\<open>errors.Is(err, target)\<close> for a sentinel target: the walk through everything wrapped.\<close>

fun errors_Is :: "error \<Rightarrow> sentinel \<Rightarrow> bool" where
  "errors_Is (Sentinel s) target = (s = target)"
| "errors_Is (Foreign c) target = False"
| "errors_Is (Errorf_ww a b) target = (errors_Is a target \<or> errors_Is b target)"
| "errors_Is (Errorf_ws a s) target = errors_Is a target"

text \<open>\<^verbatim>\<open>os.IsNotExist\<close> looks at the error the system call gave and through no \<^verbatim>\<open>%w\<close>.\<close>

fun os_IsNotExist :: "error \<Rightarrow> bool" where
  "os_IsNotExist (Foreign NotExist) = True"
| "os_IsNotExist _ = False"

section \<open>k6provider: paths\<close>

text \<open>
  \<^verbatim>\<open>filepath.Join\<close> and \<^verbatim>\<open>filepath.Clean\<close> of the standard library, for the separator
  \<open>/\<close>. \<open>elements\<close> cuts a path at its separators. \<open>clean_step\<close> is one round of the loop of
  \<^verbatim>\<open>Clean\<close> on the elements kept so far: an empty element and \<open>.\<close> are dropped, \<open>..\<close>
  takes the element before it away when there is one, is dropped at the root and kept at
  the start of a relative path, and any other element is kept.
\<close>

fun elements :: "string \<Rightarrow> string \<Rightarrow> string list" where
  "elements cur [] = [cur]"
| "elements cur (c # cs) =
     (if c = CHR ''/'' then cur # elements [] cs else elements (cur @ [c]) cs)"

fun join_sep :: "string list \<Rightarrow> string" where
  "join_sep [] = []"
| "join_sep [e] = e"
| "join_sep (e # es) = e @ ''/'' @ join_sep es"

definition clean_step :: "bool \<Rightarrow> string list \<Rightarrow> string \<Rightarrow> string list" where
  "clean_step rooted out e =
     (if e = [] \<or> e = ''.'' then out
      else if e = ''..'' then
        (if out \<noteq> [] \<and> last out \<noteq> ''..'' then butlast out
         else if rooted then out
         else out @ [''..''])
      else out @ [e])"

definition filepath_Clean :: "string \<Rightarrow> string" where
  "filepath_Clean path =
     (case path of
        [] \<Rightarrow> ''.''
      | c # cs \<Rightarrow>
          let rooted = (c = CHR ''/'');
              out = foldl (clean_step rooted) [] (elements [] path);
              cleaned = (if rooted then ''/'' else []) @ join_sep out
          in if cleaned = [] then ''.'' else cleaned)"

fun filepath_Join :: "string list \<Rightarrow> string" where
  "filepath_Join [] = []"
| "filepath_Join (e # es) =
     (if e = [] then filepath_Join es else filepath_Clean (join_sep (e # es)))"

section \<open>k6provider: the world outside the process\<close>

text \<open>
  The file system is a store from cleaned path names to nodes; a node keeps its permission
  bits and a file its content. \<open>within dir p\<close> says that \<open>p\<close> is \<open>dir\<close> or lies below it;
  \<open>parents path\<close> lists the directories above \<open>path\<close>, outermost first (the root and the
  working directory always exist and are not listed).
\<close>

datatype node = Dir nat | File nat string

definition is_file :: "node option \<Rightarrow> bool" where
  "is_file n = (case n of Some (File perm content) \<Rightarrow> True | _ \<Rightarrow> False)"

definition is_dir :: "node option \<Rightarrow> bool" where
  "is_dir n = (case n of Some (Dir perm) \<Rightarrow> True | _ \<Rightarrow> False)"

definition within :: "string \<Rightarrow> string \<Rightarrow> bool" where
  "within dir p \<longleftrightarrow>
     p = dir \<or> prefix (if dir \<noteq> [] \<and> last dir = CHR ''/'' then dir else dir @ ''/'') p"

definition parents :: "string \<Rightarrow> string list" where
  "parents path = [take i path. i \<leftarrow> [1..<length path], path ! i = CHR ''/'']"

text \<open>
  Every call that leaves the process is recorded, in order, so that a property such as
  "no download request is made" or "nothing is created, opened or written" can be read
  off the record.
\<close>

datatype event =
    EvBuild string string "BuildDependency list"
  | EvStat string
  | EvMkdirAll string
  | EvOpenFile string
  | EvHTTPGet string
  | EvCopy string nat
  | EvRemoveAll string
  | EvClose string

record world =
  files :: "string \<rightharpoonup> node"
  trace :: "event list"

definition record_event :: "event \<Rightarrow> world \<Rightarrow> world" where
  "record_event e w = w\<lparr>trace := trace w @ [e]\<rparr>"

text \<open>Which events are file-system calls, and which of those can change the store.\<close>

fun fs_event :: "event \<Rightarrow> bool" where
  "fs_event (EvBuild pl c ds) = False"
| "fs_event (EvHTTPGet u) = False"
| "fs_event _ = True"

fun mutation :: "event \<Rightarrow> bool" where
  "mutation (EvMkdirAll p) = True"
| "mutation (EvOpenFile p) = True"
| "mutation (EvCopy p n) = True"
| "mutation (EvRemoveAll p) = True"
| "mutation _ = False"

text \<open>
  What the collaborators answer is not decided by the program; it is given by an
  environment. \<open>url_Parse\<close> is \<^verbatim>\<open>net/url.Parse\<close>. The \<open>*_fault\<close> fields make a system call
  fail for a reason the store does not decide (permissions, I/O errors); \<open>copy_fault\<close> makes
  \<^verbatim>\<open>io.Copy\<close> fail after that many bytes. The remaining fields are what \<^verbatim>\<open>NewProvider\<close>
  reads from the process and from the libraries that build its clients.
\<close>

record Response =
  StatusCode :: int
  Body :: string

type_synonym http_Client = "string \<Rightarrow> cause + Response"

record Artifact =
  ID :: string
  URL :: string
  ArtifactDependencies :: "(string \<rightharpoonup> string) option"
  ArtifactChecksum :: string

type_synonym BuildService = "string \<Rightarrow> string \<Rightarrow> BuildDependency list \<Rightarrow> cause + Artifact"

record env =
  url_Parse :: "string \<Rightarrow> cause + string"
  stat_fault :: "cause option"
  mkdir_fault :: "cause option"
  open_fault :: "cause option"
  copy_fault :: "(nat \<times> cause) option"
  remove_fault :: "cause option"
  os_TempDir :: string
  os_Getenv :: "string \<Rightarrow> string"
  runtime_GOOS :: string
  runtime_GOARCH :: string
  http_DefaultClient :: http_Client
  http_ProxyClient :: "string \<Rightarrow> http_Client"
  NewBuildServiceClient :: "string \<Rightarrow> cause + BuildService"

text \<open>\<^verbatim>\<open>os.Stat\<close>: reads the store, changes nothing.\<close>

definition os_Stat :: "env \<Rightarrow> string \<Rightarrow> world \<Rightarrow> (error + node) \<times> world" where
  "os_Stat env name w =
     (let w1 = record_event (EvStat name) w in
      case stat_fault env of
        Some c \<Rightarrow> (Inl (Foreign c), w1)
      | None \<Rightarrow>
          (case files w name of
             None \<Rightarrow> (Inl (Foreign NotExist), w1)
           | Some n \<Rightarrow> (Inr n, w1)))"

text \<open>
  \<^verbatim>\<open>os.MkdirAll\<close>: creates the directory and the missing ones above it; fails when the
  name is empty or one of them is a file; a directory that exists is left as it is.
\<close>

definition os_MkdirAll :: "env \<Rightarrow> string \<Rightarrow> nat \<Rightarrow> world \<Rightarrow> error option \<times> world" where
  "os_MkdirAll env path perm w =
     (let w1 = record_event (EvMkdirAll path) w in
      case mkdir_fault env of
        Some c \<Rightarrow> (Some (Foreign c), w1)
      | None \<Rightarrow>
          if path = [] then (Some (Foreign NotExist), w1)
          else if \<exists>d \<in> set (parents path @ [path]). is_file (files w d)
          then (Some (Foreign NotDirectory), w1)
          else (None, w1\<lparr>files := (\<lambda>p. if p \<in> set (parents path @ [path]) \<and> files w p = None
                                          then Some (Dir perm) else files w p)\<rparr>))"

text \<open>
  \<^verbatim>\<open>os.OpenFile\<close> with the flags \<^verbatim>\<open>O_WRONLY|O_CREATE\<close>: a file that exists is opened as it
  is (not truncated), a missing one is created empty in a directory that exists. The handle
  is the name.
\<close>

definition os_OpenFile :: "env \<Rightarrow> string \<Rightarrow> nat \<Rightarrow> world \<Rightarrow> (error + string) \<times> world" where
  "os_OpenFile env name perm w =
     (let w1 = record_event (EvOpenFile name) w in
      case open_fault env of
        Some c \<Rightarrow> (Inl (Foreign c), w1)
      | None \<Rightarrow>
          (case files w name of
             Some (File p content) \<Rightarrow> (Inr name, w1)
           | Some (Dir p) \<Rightarrow> (Inl (Foreign IsDirectory), w1)
           | None \<Rightarrow>
               if name = [] then (Inl (Foreign NotExist), w1)
               else if parents name \<noteq> [] \<and> is_file (files w (last (parents name)))
               then (Inl (Foreign NotDirectory), w1)
               else if parents name \<noteq> [] \<and> \<not> is_dir (files w (last (parents name)))
               then (Inl (Foreign NotExist), w1)
               else (Inr name, w1\<lparr>files := (files w)(name \<mapsto> File perm [])\<rparr>)))"

text \<open>
  \<^verbatim>\<open>io.Copy\<close> into a freshly opened file: the bytes go to the start of the file, over what
  is there; with a fault only the first bytes arrive and the error is returned.
\<close>

definition write_at_start :: "node option \<Rightarrow> string \<Rightarrow> node option" where
  "write_at_start n written =
     (case n of
        Some (File perm content) \<Rightarrow> Some (File perm (written @ drop (length written) content))
      | other \<Rightarrow> other)"

definition io_Copy :: "env \<Rightarrow> string \<Rightarrow> string \<Rightarrow> world \<Rightarrow> error option \<times> world" where
  "io_Copy env dest body w =
     (let written = (case copy_fault env of None \<Rightarrow> body | Some (n, c) \<Rightarrow> take n body);
          w1 = record_event (EvCopy dest (length written)) w;
          w2 = w1\<lparr>files := (files w)(dest := write_at_start (files w dest) written)\<rparr>
      in (case copy_fault env of None \<Rightarrow> None | Some (n, c) \<Rightarrow> Some (Foreign c), w2))"

text \<open>
  \<^verbatim>\<open>os.RemoveAll\<close>: returns nil without doing anything for the empty name, refuses a name
  that ends in a dot element, and otherwise removes the path with everything below it (a
  path that does not exist is no error).
\<close>

definition endsWithDot :: "string \<Rightarrow> bool" where
  "endsWithDot path =
     (case rev path of
        [] \<Rightarrow> False
      | [c] \<Rightarrow> c = CHR ''.''
      | c # d # front \<Rightarrow> c = CHR ''.'' \<and> d = CHR ''/'')"

definition os_RemoveAll :: "env \<Rightarrow> string \<Rightarrow> world \<Rightarrow> error option \<times> world" where
  "os_RemoveAll env path w =
     (let w1 = record_event (EvRemoveAll path) w in
      if path = [] then (None, w1)
      else if endsWithDot path then (Some (Foreign Invalid), w1)
      else case remove_fault env of
        Some c \<Rightarrow> (Some (Foreign c), w1)
      | None \<Rightarrow> (None, w1\<lparr>files := (\<lambda>p. if within path p then None else files w p)\<rparr>))"

definition file_Close :: "string \<Rightarrow> world \<Rightarrow> error option \<times> world" where
  "file_Close f w = (None, record_event (EvClose f) w)"

text \<open>
  \<^verbatim>\<open>http.NewRequestWithContext\<close> with the method GET and a context that is not nil fails
  exactly when the URL does not parse. The request is the URL.
\<close>

definition http_NewRequest :: "env \<Rightarrow> string \<Rightarrow> error + string" where
  "http_NewRequest env from =
     (case url_Parse env from of Inl c \<Rightarrow> Inl (Foreign c) | Inr u \<Rightarrow> Inr from)"

definition http_StatusOK :: int where
  "http_StatusOK = 200"

definition S_IRWXU :: nat where "S_IRWXU = 448"
definition S_IRUSR :: nat where "S_IRUSR = 256"
definition S_IWUSR :: nat where "S_IWUSR = 128"
definition S_IXUSR :: nat where "S_IXUSR = 64"

section \<open>k6provider: the provider\<close>

record K6Binary =
  Path :: string
  Dependencies :: "(string \<rightharpoonup> string) option"
  Checksum :: string

text \<open>The zero value \<^verbatim>\<open>K6Binary{}\<close>: empty strings and a nil map.\<close>

definition K6Binary_zero :: K6Binary where
  "K6Binary_zero = \<lparr>Path = [], Dependencies = None, Checksum = []\<rparr>"

record Config =
  Platform :: string
  BinDir :: string
  BuildServiceURL :: string
  DownloadProxyURL :: string

record provider =
  client :: http_Client
  bidDir :: string
  buildSrv :: BuildService
  platform :: string

text \<open>
  \<^verbatim>\<open>NewProvider\<close> returns a provider and an error, one of them nil; the pair is kept as the
  code has it.
\<close>

definition NewProvider :: "env \<Rightarrow> Config \<Rightarrow> provider option \<times> error option" where
  "NewProvider env config =
     (let binDir = (if BinDir config = []
                    then filepath_Join [os_TempDir env, ''k6provider'', ''cache'']
                    else BinDir config);
          proxyURL = (if DownloadProxyURL config = []
                      then os_Getenv env ''K6_DOWNLOAD_PROXY''
                      else DownloadProxyURL config);
          httpClient = (if proxyURL \<noteq> []
                        then (case url_Parse env proxyURL of
                                Inl c \<Rightarrow> Inl (Errorf_ww (Sentinel ErrConfig) (Foreign c))
                              | Inr parsed \<Rightarrow> Inr (http_ProxyClient env parsed))
                        else Inr (http_DefaultClient env))
      in case httpClient of
           Inl err \<Rightarrow> (None, Some err)
         | Inr cl \<Rightarrow>
             let buildSrvURL = (if BuildServiceURL config = []
                                then os_Getenv env ''K6_BUILD_SERVICE_URL''
                                else BuildServiceURL config)
             in case NewBuildServiceClient env buildSrvURL of
                  Inl c \<Rightarrow> (None, Some (Foreign c))
                | Inr srv \<Rightarrow>
                    (Some \<lparr>client = cl,
                           bidDir = binDir,
                           buildSrv = srv,
                           platform = (if Platform config = []
                                       then runtime_GOOS env @ ''/'' @ runtime_GOARCH env
                                       else Platform config)\<rparr>,
                     None))"

definition download :: "env \<Rightarrow> provider \<Rightarrow> string \<Rightarrow> string \<Rightarrow> world \<Rightarrow> error option \<times> world" where
  "download env p from dest w =
     (case http_NewRequest env from of
        Inl err \<Rightarrow> (Some (Errorf_ww (Sentinel ErrDownload) err), w)
      | Inr req \<Rightarrow>
          let w1 = record_event (EvHTTPGet req) w in
          case client p req of
            Inl c \<Rightarrow> (Some (Errorf_ww (Sentinel ErrDownload) (Foreign c)), w1)
          | Inr resp \<Rightarrow>
              if StatusCode resp \<noteq> http_StatusOK
              then (Some (Errorf_ws (Sentinel ErrDownload) from), w1)
              else io_Copy env dest (Body resp) w1)"

text \<open>The two paths \<^verbatim>\<open>GetBinary\<close> computes from the artifact.\<close>

definition artifactDir :: "provider \<Rightarrow> Artifact \<Rightarrow> string" where
  "artifactDir p artifact = filepath_Join [bidDir p, ID artifact]"

definition binPath :: "provider \<Rightarrow> Artifact \<Rightarrow> string" where
  "binPath p artifact = filepath_Join [artifactDir p artifact, k6Binary]"

definition K6Binary_of :: "provider \<Rightarrow> Artifact \<Rightarrow> K6Binary" where
  "K6Binary_of p artifact =
     \<lparr>Path = binPath p artifact,
      Dependencies = ArtifactDependencies artifact,
      Checksum = ArtifactChecksum artifact\<rparr>"

text \<open>
  \<^verbatim>\<open>GetBinary\<close>. The first argument after the provider is the order in which the loop of
  \<^verbatim>\<open>buildDeps\<close> visits the dependencies. The result is the pair the code returns, with the
  world after the call.
\<close>

definition GetBinary ::
  "env \<Rightarrow> provider \<Rightarrow> string list \<Rightarrow> Dependencies \<Rightarrow> world \<Rightarrow> (K6Binary \<times> error option) \<times> world" where
  "GetBinary env p ks deps w =
     (case buildDeps ks deps of (k6Constrains, bdeps) \<Rightarrow>
      let w1 = record_event (EvBuild (platform p) k6Constrains bdeps) w in
      case buildSrv p (platform p) k6Constrains bdeps of
        Inl c \<Rightarrow> ((K6Binary_zero, Some (Errorf_ww (Sentinel ErrBuild) (Foreign c))), w1)
      | Inr artifact \<Rightarrow>
          (case os_Stat env (binPath p artifact) w1 of
             (Inr info, w2) \<Rightarrow> ((K6Binary_of p artifact, None), w2)
           | (Inl err, w2) \<Rightarrow>
               if \<not> os_IsNotExist err
               then ((K6Binary_zero, Some (Errorf_ww (Sentinel ErrBinary) err)), w2)
               else
                 (case os_MkdirAll env (artifactDir p artifact) S_IRWXU w2 of
                    (Some err, w3) \<Rightarrow>
                      ((K6Binary_zero, Some (Errorf_ww (Sentinel ErrBinary) err)), w3)
                  | (None, w3) \<Rightarrow>
                      (case os_OpenFile env (binPath p artifact)
                              (or (or S_IRUSR S_IXUSR) S_IWUSR) w3 of
                         (Inl err, w4) \<Rightarrow>
                           ((K6Binary_zero, Some (Errorf_ww (Sentinel ErrBinary) err)), w4)
                       | (Inr target, w4) \<Rightarrow>
                           (case download env p (URL artifact) target w4 of
                              (Some err, w5) \<Rightarrow>
                                ((K6Binary_zero, Some err),
                                 snd (os_RemoveAll env (artifactDir p artifact) w5))
                            | (None, w5) \<Rightarrow>
                                ((K6Binary_of p artifact, None),
                                 snd (file_Close target w5)))))))"

section \<open>Properties of the request translation\<close>

lemma range_entries_Nil [simp]: "range_entries [] m = []"
  by (simp add: range_entries_def map_filter_simps)

lemma range_entries_Cons:
  "range_entries (k # ks) m =
     (case m k of None \<Rightarrow> range_entries ks m | Some v \<Rightarrow> (k, v) # range_entries ks m)"
  by (simp add: range_entries_def map_filter_simps split: option.splits)

lemma range_entries_in_map: "(k, v) \<in> set (range_entries ks m) \<Longrightarrow> m k = Some v"
  by (induction ks) (auto simp: range_entries_Cons split: option.splits)

lemma range_entries_values_ran: "set (map snd (range_entries ks m)) \<subseteq> ran m"
  using range_entries_in_map [of _ _ ks m] by (fastforce simp: ran_def)

lemma range_entries_dom:
  "set ks \<subseteq> dom m \<Longrightarrow> range_entries ks m = map (\<lambda>k. (k, the (m k))) ks"
  by (induction ks) (auto simp: range_entries_Cons split: option.splits)

lemma buildDeps_loop_snd:
  "snd (buildDeps_loop ds (c, acc)) = acc @ map verbatim (filter non_primary ds)"
  by (induction ds arbitrary: c acc)
     (simp_all add: verbatim_def non_primary_def GetConstraints_String_def)

lemma buildDeps_loop_fst_none:
  "\<forall>d \<in> set ds. Name d \<noteq> k6Module \<Longrightarrow> fst (buildDeps_loop ds (c, acc)) = c"
  by (induction ds arbitrary: c acc) simp_all

text \<open>
  C4. A dependency specification with no entry named \<open>k6\<close> translates to the wildcard
  \<open>*\<close> as primary constraint, whatever order the loop visits the entries in.
\<close>

theorem buildDeps_default_wildcard:
  "\<forall>d \<in> ran deps. Name d \<noteq> k6Module \<Longrightarrow> fst (buildDeps ks deps) = ''*''"
proof -
  assume h: "\<forall>d \<in> ran deps. Name d \<noteq> k6Module"
  have "\<forall>d \<in> set (map snd (range_entries ks deps)). Name d \<noteq> k6Module"
    using h range_entries_values_ran [of ks deps] by blast
  then show ?thesis
    unfolding buildDeps_def by (rule buildDeps_loop_fst_none)
qed

theorem buildDeps_default_wildcard_witness:
  "fst (buildDeps [''k6/x/sql'']
     [''k6/x/sql'' \<mapsto> \<lparr>Name = ''k6/x/sql'', Constraints = ''>=1.0.0''\<rparr>]) = ''*''"
proof -
  have h: "\<forall>d \<in> ran [''k6/x/sql'' \<mapsto> \<lparr>Name = ''k6/x/sql'', Constraints = ''>=1.0.0''\<rparr>].
             Name d \<noteq> k6Module"
    by (simp add: k6Module_def)
  from buildDeps_default_wildcard [OF h] show ?thesis .
qed

text \<open>
  C5. With N entries not named \<open>k6\<close>, the auxiliary list has N elements: it is the list of
  those entries, in the order the loop visits them, each with its name and its constraint
  string copied; none of them is named \<open>k6\<close>.
\<close>

theorem buildDeps_auxiliary:
  "range_order deps ks \<Longrightarrow>
     length (snd (buildDeps ks deps))
       = card {k \<in> dom deps. \<forall>d. deps k = Some d \<longrightarrow> Name d \<noteq> k6Module}
     \<and> snd (buildDeps ks deps)
         = map verbatim (filter non_primary (map (\<lambda>k. the (deps k)) ks))
     \<and> (\<forall>b \<in> set (snd (buildDeps ks deps)). DepName b \<noteq> k6Module)"
proof -
  assume ro: "range_order deps ks"
  then have d: "distinct ks" and s: "set ks = dom deps"
    by (simp_all add: range_order_def)
  have vals: "map snd (range_entries ks deps) = map (\<lambda>k. the (deps k)) ks"
    using s by (simp add: range_entries_dom comp_def)
  have aux: "snd (buildDeps ks deps)
               = map verbatim (filter non_primary (map (\<lambda>k. the (deps k)) ks))"
    by (simp add: buildDeps_def buildDeps_loop_snd vals)
  have "length (snd (buildDeps ks deps))
          = length (filter (\<lambda>k. non_primary (the (deps k))) ks)"
    by (simp add: aux filter_map comp_def)
  also have "\<dots> = card ({k. non_primary (the (deps k))} \<inter> set ks)"
    using d by (simp add: distinct_length_filter)
  also have "{k. non_primary (the (deps k))} \<inter> set ks
               = {k \<in> dom deps. \<forall>d. deps k = Some d \<longrightarrow> Name d \<noteq> k6Module}"
    using s by (auto simp: non_primary_def)
  finally have len: "length (snd (buildDeps ks deps))
      = card {k \<in> dom deps. \<forall>d. deps k = Some d \<longrightarrow> Name d \<noteq> k6Module}" .
  have "\<forall>b \<in> set (snd (buildDeps ks deps)). DepName b \<noteq> k6Module"
    by (auto simp: aux verbatim_def non_primary_def)
  with len aux show ?thesis by blast
qed

end
